theory Spec2Isabelle
  imports Complex_Main
begin

section \<open>Arrays: the numpy operations the filter uses\<close>

text \<open>
  A one-dimensional float array is a list of reals, a two-dimensional one a list of rows.
  Python floats are modelled as real numbers: rounding is not part of the model, so what
  the arithmetic of the model yields is the exact value that the program approximates in
  float64.
\<close>

type_synonym vec = "real list"
type_synonym mat = "real list list"

definition inner_v :: "vec \<Rightarrow> vec \<Rightarrow> real" where
  "inner_v u v = sum_list (map2 (*) u v)"

text \<open>\<^verbatim>\<open>np.dot(M, v)\<close> for a matrix and a vector.\<close>

definition dot_mv :: "mat \<Rightarrow> vec \<Rightarrow> vec" where
  "dot_mv M v = map (\<lambda>row. inner_v row v) M"

text \<open>\<^verbatim>\<open>M.T\<close>\<close>

definition T :: "mat \<Rightarrow> mat" where
  "T M = transpose M"

text \<open>\<^verbatim>\<open>np.dot(M, N)\<close> for two matrices.\<close>

definition dot_mm :: "mat \<Rightarrow> mat \<Rightarrow> mat" where
  "dot_mm M N = map (\<lambda>row. map (\<lambda>col. inner_v row col) (T N)) M"

definition vec_add :: "vec \<Rightarrow> vec \<Rightarrow> vec" where
  "vec_add u v = map2 (+) u v"

definition vec_sub :: "vec \<Rightarrow> vec \<Rightarrow> vec" where
  "vec_sub u v = map2 (-) u v"

definition mat_add :: "mat \<Rightarrow> mat \<Rightarrow> mat" where
  "mat_add M N = map2 vec_add M N"

definition mat_sub :: "mat \<Rightarrow> mat \<Rightarrow> mat" where
  "mat_sub M N = map2 vec_sub M N"

definition mat_scale :: "mat \<Rightarrow> real \<Rightarrow> mat" where
  "mat_scale M c = map (map (\<lambda>a. a * c)) M"

text \<open>\<^verbatim>\<open>np.eye(n)\<close> and \<^verbatim>\<open>np.zeros(n)\<close>\<close>

definition eye :: "nat \<Rightarrow> mat" where
  "eye n = map (\<lambda>i. map (\<lambda>j. if i = j then 1 else 0) [0..<n]) [0..<n]"

definition zeros :: "nat \<Rightarrow> vec" where
  "zeros n = replicate n 0"

text \<open>
  The exceptions the modelled code raises. The detail of an \<^verbatim>\<open>HTTPException\<close> is one of the
  two messages of the services: \<^verbatim>\<open>f"Vehicle {vehicle_id} not found"\<close> and
  \<^verbatim>\<open>"Vehicle filter not found"\<close>. A \<^verbatim>\<open>RequestValidationError\<close> names the field of the
  request body that pydantic rejected.
\<close>

datatype detail = Vehicle_not_found int | Vehicle_filter_not_found

datatype error =
    LinAlgError
  | IndexError
  | KeyError
  | HTTPException nat detail
  | RequestValidationError string

text \<open>
  \<^verbatim>\<open>np.linalg.inv(S)\<close>, for the 2x2 arrays the filter passes to it (H has two rows, so S
  is 2x2): the inverse, and \<^verbatim>\<open>LinAlgError\<close> is raised for a singular matrix, one whose
  determinant is zero. numpy finds a singular matrix by a zero pivot of its factorisation
  in float64; for a diagonal S this is a zero on the diagonal, and there the two tests
  agree. An argument of another shape does not occur in the filter; the last equation
  only makes the function total.
\<close>

fun linalg_inv :: "mat \<Rightarrow> error + mat" where
  "linalg_inv [[a, b], [c, d]] =
     (let det = a * d - b * c
      in if det = 0 then Inl LinAlgError
         else Inr [[d / det, - b / det], [- c / det, a / det]])"
| "linalg_inv _ = Inl LinAlgError"

section \<open>The filter: backend/services/fusion/kalman\_filter.py\<close>

record KalmanFilter =
  kf_dt :: real
  kf_A :: mat
  kf_H :: mat
  kf_Q :: mat
  kf_R :: mat
  kf_P :: mat
  kf_x :: vec
  kf_initialized :: bool

text \<open>\<^verbatim>\<open>KalmanFilter.__init__(process_noise, measurement_noise)\<close>\<close>

definition KalmanFilter_init :: "real \<Rightarrow> real \<Rightarrow> KalmanFilter" where
  "KalmanFilter_init process_noise measurement_noise =
     (let dt = 1 in
      \<lparr> kf_dt = dt,
        kf_A = [[1, 0, dt, 0],
                [0, 1, 0, dt],
                [0, 0, 1, 0],
                [0, 0, 0, 1]],
        kf_H = [[1, 0, 0, 0],
                [0, 1, 0, 0]],
        kf_Q = mat_scale (eye 4) process_noise,
        kf_R = mat_scale (eye 2) measurement_noise,
        kf_P = eye 4,
        kf_x = zeros 4,
        kf_initialized = False \<rparr>)"

text \<open>The defaults of the constructor: \<^verbatim>\<open>process_noise=0.001, measurement_noise=0.001\<close>.\<close>

definition KalmanFilter_default :: KalmanFilter where
  "KalmanFilter_default = KalmanFilter_init (1 / 1000) (1 / 1000)"

text \<open>
  \<^verbatim>\<open>predict\<close> mutates \<^verbatim>\<open>self.x\<close> and \<^verbatim>\<open>self.P\<close> and returns \<^verbatim>\<open>self.x[:2]\<close>: the
  model returns the new object and the returned slice.
\<close>

definition predict :: "KalmanFilter \<Rightarrow> KalmanFilter \<times> vec" where
  "predict self =
     (let x' = dot_mv (kf_A self) (kf_x self);
          P' = mat_add (dot_mm (dot_mm (kf_A self) (kf_P self)) (T (kf_A self))) (kf_Q self)
      in (self\<lparr>kf_x := x', kf_P := P'\<rparr>, take 2 x'))"

text \<open>
  \<^verbatim>\<open>update(measurement)\<close>: the measurement is the two-element list \<^verbatim>\<open>[lat, lon]\<close> every
  caller passes. The result pairs the object as the call leaves it with the returned
  slice, or with the exception \<^verbatim>\<open>np.linalg.inv\<close> raised; the exception is raised before
  any assignment to \<^verbatim>\<open>self\<close>.
\<close>

definition update :: "KalmanFilter \<Rightarrow> real \<times> real \<Rightarrow> KalmanFilter \<times> (error + vec)" where
  "update self measurement =
     (let z = [fst measurement, snd measurement] in
      if \<not> kf_initialized self then
        (let x1 = z @ drop 2 (kf_x self);
             x2 = take 2 x1 @ replicate (length x1 - 2) 0
         in (self\<lparr>kf_x := x2, kf_initialized := True\<rparr>, Inr (take 2 x2)))
      else
        (let S = mat_add (dot_mm (dot_mm (kf_H self) (kf_P self)) (T (kf_H self))) (kf_R self)
         in case linalg_inv S of
              Inl e \<Rightarrow> (self, Inl e)
            | Inr S_inv \<Rightarrow>
               (let K = dot_mm (dot_mm (kf_P self) (T (kf_H self))) S_inv;
                    y = vec_sub z (dot_mv (kf_H self) (kf_x self));
                    x' = vec_add (kf_x self) (dot_mv K y);
                    I = eye 4;
                    P' = dot_mm (mat_sub I (dot_mm K (kf_H self))) (kf_P self)
                in (self\<lparr>kf_x := x', kf_P := P'\<rparr>, Inr (take 2 x')))))"

text \<open>\<^verbatim>\<open>process(measurement)\<close>: predict, then update.\<close>

definition process :: "KalmanFilter \<Rightarrow> real \<times> real \<Rightarrow> KalmanFilter \<times> (error + vec)" where
  "process self measurement = update (fst (predict self)) measurement"

section \<open>Sequences of calls on one filter\<close>

datatype call = Predict | Update "real \<times> real"

text \<open>
  The object after one call. An exception of \<^verbatim>\<open>update\<close> reaches the caller; the object
  stays as the call left it.
\<close>

fun apply_call :: "KalmanFilter \<Rightarrow> call \<Rightarrow> KalmanFilter" where
  "apply_call self Predict = fst (predict self)"
| "apply_call self (Update m) = fst (update self m)"

definition run_calls :: "KalmanFilter \<Rightarrow> call list \<Rightarrow> KalmanFilter" where
  "run_calls self calls = foldl apply_call self calls"

text \<open>The innovation covariance of \<^verbatim>\<open>update\<close>, \<^verbatim>\<open>S = H P H.T + R\<close>, by name.\<close>

definition innovation_covariance :: "KalmanFilter \<Rightarrow> mat" where
  "innovation_covariance self =
     mat_add (dot_mm (dot_mm (kf_H self) (kf_P self)) (T (kf_H self))) (kf_R self)"




section \<open>The fusion service: backend/services/fusion/service.py\<close>

record GeoPoint =
  lat :: real
  lon :: real

text \<open>\<^verbatim>\<open>CorrectionRequest\<close>; its \<^verbatim>\<open>vehicle_id\<close> is a string.\<close>

record CorrectionRequest =
  cr_vehicle_id :: string
  measurement :: GeoPoint

text \<open>
  The module-level dict \<^verbatim>\<open>vehicle_filters\<close> is passed in and returned. A filter object is
  mutated in place by \<^verbatim>\<open>process\<close>, so the dict holds the filter as the call left it,
  also when the call raised.
\<close>

definition correct_position ::
  "CorrectionRequest \<Rightarrow> (string \<rightharpoonup> KalmanFilter) \<Rightarrow>
   (string \<rightharpoonup> KalmanFilter) \<times> (error + GeoPoint)" where
  "correct_position request vehicle_filters =
     (let vid = cr_vehicle_id request;
          vehicle_filters1 =
            (case vehicle_filters vid of
               None \<Rightarrow> vehicle_filters(vid \<mapsto> KalmanFilter_init (1 / 10000) (1 / 100))
             | Some _ \<Rightarrow> vehicle_filters)
      in case vehicle_filters1 vid of
           None \<Rightarrow> (vehicle_filters1, Inl KeyError)
         | Some kf \<Rightarrow>
             (case process kf (lat (measurement request), lon (measurement request)) of
                (kf', Inl e) \<Rightarrow> (vehicle_filters1(vid \<mapsto> kf'), Inl e)
              | (kf', Inr corrected) \<Rightarrow>
                  (case corrected of
                     c0 # c1 # _ \<Rightarrow> (vehicle_filters1(vid \<mapsto> kf'), Inr \<lparr>lat = c0, lon = c1\<rparr>)
                   | _ \<Rightarrow> (vehicle_filters1(vid \<mapsto> kf'), Inl IndexError))))"

record ResetResponse =
  reset_status :: string
  reset_vehicle_id :: string

definition reset_filter ::
  "string \<Rightarrow> (string \<rightharpoonup> KalmanFilter) \<Rightarrow>
   (string \<rightharpoonup> KalmanFilter) \<times> (error + ResetResponse)" where
  "reset_filter vid vehicle_filters =
     (case vehicle_filters vid of
        Some _ \<Rightarrow> (vehicle_filters(vid := None),
                   Inr \<lparr>reset_status = ''reset'', reset_vehicle_id = vid\<rparr>)
      | None \<Rightarrow> (vehicle_filters, Inl (HTTPException 404 Vehicle_filter_not_found)))"

section \<open>The stores: database/models.py, database/redis\_manager.py, database/influx\_schema.py\<close>

text \<open>A \<^verbatim>\<open>datetime\<close> is an instant on some clock.\<close>

type_synonym datetime = nat

text \<open>The columns of \<^verbatim>\<open>vehicles\<close> and \<^verbatim>\<open>location_tracking\<close> that ingestion reads and writes.\<close>

record Vehicle =
  v_vehicle_id :: int
  vehicle_number :: string

record LocationTracking =
  track_id :: nat
  lt_vehicle_id :: int
  position :: "real \<times> real"
  lt_latitude :: real
  lt_longitude :: real
  lt_speed :: "real option"
  lt_direction :: "real option"
  lt_accuracy :: "real option"
  lt_altitude :: "real option"
  lt_timestamp :: datetime

text \<open>The point \<^verbatim>\<open>InfluxDBManager.write_telemetry\<close> builds from its dict.\<close>

record InfluxPoint =
  ip_vehicle_id :: int
  ip_speed :: real
  ip_latitude :: real
  ip_longitude :: real
  ip_direction :: real
  ip_accuracy :: real
  ip_altitude :: real
  ip_timestamp :: datetime
  ip_acceleration :: "real option"
  ip_fuel_level :: "real option"

text \<open>The dict \<^verbatim>\<open>location_data\<close> that is cached and published.\<close>

record location_data =
  ld_latitude :: real
  ld_longitude :: real
  ld_speed :: "real option"
  ld_direction :: "real option"
  ld_timestamp :: datetime
  ld_vehicle_number :: string

text \<open>
  Redis keys \<^verbatim>\<open>f"vehicle:location:{vehicle_id}"\<close>, channels
  \<^verbatim>\<open>f"vehicle:updates:{vehicle_id}"\<close> and \<^verbatim>\<open>"vehicle:updates:all"\<close>, and the two JSON
  payloads: the dict itself, and the dict with \<^verbatim>\<open>'vehicle_id'\<close> added.
\<close>

datatype redis_key = vehicle_location int

datatype channel = vehicle_updates int | vehicle_updates_all

datatype payload = Location location_data | Location_of int location_data

text \<open>The Redis server as the manager's calls see it: keys with their time to live, and
  the messages published so far, oldest first.\<close>

record RedisManager =
  cache :: "redis_key \<rightharpoonup> nat \<times> location_data"
  published :: "(channel \<times> payload) list"

definition set_vehicle_location ::
  "RedisManager \<Rightarrow> int \<Rightarrow> location_data \<Rightarrow> nat \<Rightarrow> RedisManager" where
  "set_vehicle_location self vid data ttl =
     (let key = vehicle_location vid
      in self\<lparr>cache := (cache self)(key \<mapsto> (ttl, data))\<rparr>)"

definition get_vehicle_location :: "RedisManager \<Rightarrow> int \<Rightarrow> location_data option" where
  "get_vehicle_location self vid =
     (case cache self (vehicle_location vid) of None \<Rightarrow> None | Some (_, data) \<Rightarrow> Some data)"

definition publish_location_update ::
  "RedisManager \<Rightarrow> int \<Rightarrow> location_data \<Rightarrow> RedisManager" where
  "publish_location_update self vid data =
     (let channel = vehicle_updates vid
      in self\<lparr>published := published self @
                 [(channel, Location data), (vehicle_updates_all, Location_of vid data)]\<rparr>)"
section \<open>The ingestion service: backend/services/ingestion/service.py\<close>

record TelemetryData =
  vehicle_id :: int
  latitude :: real
  longitude :: real
  speed :: "real option"
  direction :: "real option"
  accuracy :: "real option"
  altitude :: "real option"
  acceleration :: "real option"
  fuel_level :: "real option"
  timestamp :: "datetime option"

text \<open>
  A request body before validation: any field may be absent. FastAPI hands the handler a
  \<^verbatim>\<open>TelemetryData\<close> only when the body passes the constraints the class declares:
  \<^verbatim>\<open>vehicle_id\<close>, \<^verbatim>\<open>latitude\<close> and \<^verbatim>\<open>longitude\<close> are required,
  \<^verbatim>\<open>latitude: ge=-90, le=90\<close>, \<^verbatim>\<open>longitude: ge=-180, le=180\<close>, \<^verbatim>\<open>speed: ge=0\<close>,
  \<^verbatim>\<open>direction: ge=0, le=360\<close>, \<^verbatim>\<open>fuel_level: ge=0, le=100\<close>.
\<close>

record TelemetryBody =
  body_vehicle_id :: "int option"
  body_latitude :: "real option"
  body_longitude :: "real option"
  body_speed :: "real option"
  body_direction :: "real option"
  body_accuracy :: "real option"
  body_altitude :: "real option"
  body_acceleration :: "real option"
  body_fuel_level :: "real option"
  body_timestamp :: "datetime option"

definition optional_ok :: "(real \<Rightarrow> bool) \<Rightarrow> real option \<Rightarrow> bool" where
  "optional_ok ok field = (case field of None \<Rightarrow> True | Some v \<Rightarrow> ok v)"

definition TelemetryData_validate :: "TelemetryBody \<Rightarrow> error + TelemetryData" where
  "TelemetryData_validate body =
     (case body_vehicle_id body of
        None \<Rightarrow> Inl (RequestValidationError ''vehicle_id'')
      | Some vid \<Rightarrow>
     (case body_latitude body of
        None \<Rightarrow> Inl (RequestValidationError ''latitude'')
      | Some la \<Rightarrow>
          if \<not> (- 90 \<le> la \<and> la \<le> 90) then Inl (RequestValidationError ''latitude'')
          else
     (case body_longitude body of
        None \<Rightarrow> Inl (RequestValidationError ''longitude'')
      | Some lo \<Rightarrow>
          if \<not> (- 180 \<le> lo \<and> lo \<le> 180) then Inl (RequestValidationError ''longitude'')
          else if \<not> optional_ok (\<lambda>v. 0 \<le> v) (body_speed body)
            then Inl (RequestValidationError ''speed'')
          else if \<not> optional_ok (\<lambda>v. 0 \<le> v \<and> v \<le> 360) (body_direction body)
            then Inl (RequestValidationError ''direction'')
          else if \<not> optional_ok (\<lambda>v. 0 \<le> v \<and> v \<le> 100) (body_fuel_level body)
            then Inl (RequestValidationError ''fuel_level'')
          else Inr \<lparr> vehicle_id = vid, latitude = la, longitude = lo,
                     speed = body_speed body, direction = body_direction body,
                     accuracy = body_accuracy body, altitude = body_altitude body,
                     acceleration = body_acceleration body,
                     fuel_level = body_fuel_level body,
                     timestamp = body_timestamp body \<rparr>)))"

text \<open>
  What the handlers read and write: the two tables, the module-level dict \<^verbatim>\<open>kf_storage\<close>,
  the points written to InfluxDB, and Redis. In the single-record handler the stores
  accept every write; the bulk loop, which catches exceptions, is given the outcome of
  each InfluxDB write.
\<close>

record AppState =
  vehicles :: "Vehicle list"
  location_tracking :: "LocationTracking list"
  kf_storage :: "int \<rightharpoonup> KalmanFilter"
  influx :: "InfluxPoint list"
  redis :: RedisManager

record IngestResponse =
  status :: string
  message :: string
  resp_track_id :: nat
  resp_timestamp :: datetime

text \<open>\<^verbatim>\<open>value or 0\<close> on an optional float.\<close>

definition or_zero :: "real option \<Rightarrow> real" where
  "or_zero v = (case v of None \<Rightarrow> 0 | Some a \<Rightarrow> a)"

text \<open>
  \<^verbatim>\<open>ingest_telemetry\<close>. \<^verbatim>\<open>now\<close> is what \<^verbatim>\<open>datetime.utcnow()\<close> reads. The row gets the next
  \<^verbatim>\<open>track_id\<close> of the autoincrement column. An exception leaves the handler at the point
  it is raised, with the effects up to there done.
\<close>

definition ingest_telemetry ::
  "TelemetryData \<Rightarrow> datetime \<Rightarrow> AppState \<Rightarrow> AppState \<times> (error + IngestResponse)" where
  "ingest_telemetry telemetry now st =
     (case find (\<lambda>v. v_vehicle_id v = vehicle_id telemetry) (vehicles st) of
        None \<Rightarrow> (st, Inl (HTTPException 404 (Vehicle_not_found (vehicle_id telemetry))))
      | Some vehicle \<Rightarrow>
         (let ts = (case timestamp telemetry of Some t \<Rightarrow> t | None \<Rightarrow> now);
              kf_storage1 =
                (case kf_storage st (vehicle_id telemetry) of
                   None \<Rightarrow> (kf_storage st)(vehicle_id telemetry \<mapsto> KalmanFilter_default)
                 | Some _ \<Rightarrow> kf_storage st)
          in case kf_storage1 (vehicle_id telemetry) of
               None \<Rightarrow> (st\<lparr>kf_storage := kf_storage1\<rparr>, Inl KeyError)
             | Some kf \<Rightarrow>
                 (case process kf (latitude telemetry, longitude telemetry) of
                    (kf', Inl e) \<Rightarrow>
                      (st\<lparr>kf_storage := kf_storage1(vehicle_id telemetry \<mapsto> kf')\<rparr>, Inl e)
                  | (kf', Inr smoothed_pos) \<Rightarrow>
                      (case smoothed_pos of
                         smoothed_lat # smoothed_lon # _ \<Rightarrow>
                           (let location_record =
                                  \<lparr> track_id = Suc (length (location_tracking st)),
                                    lt_vehicle_id = vehicle_id telemetry,
                                    position = (smoothed_lon, smoothed_lat),
                                    lt_latitude = smoothed_lat,
                                    lt_longitude = smoothed_lon,
                                    lt_speed = speed telemetry,
                                    lt_direction = direction telemetry,
                                    lt_accuracy = accuracy telemetry,
                                    lt_altitude = altitude telemetry,
                                    lt_timestamp = ts \<rparr>;
                                influx_data =
                                  \<lparr> ip_vehicle_id = vehicle_id telemetry,
                                    ip_speed = or_zero (speed telemetry),
                                    ip_latitude = latitude telemetry,
                                    ip_longitude = longitude telemetry,
                                    ip_direction = or_zero (direction telemetry),
                                    ip_accuracy = or_zero (accuracy telemetry),
                                    ip_altitude = or_zero (altitude telemetry),
                                    ip_timestamp = ts,
                                    ip_acceleration = acceleration telemetry,
                                    ip_fuel_level = fuel_level telemetry \<rparr>;
                                location_data =
                                  \<lparr> ld_latitude = latitude telemetry,
                                    ld_longitude = longitude telemetry,
                                    ld_speed = speed telemetry,
                                    ld_direction = direction telemetry,
                                    ld_timestamp = ts,
                                    ld_vehicle_number = vehicle_number vehicle \<rparr>;
                                redis1 = set_vehicle_location (redis st)
                                           (vehicle_id telemetry) location_data 300;
                                redis2 = publish_location_update redis1
                                           (vehicle_id telemetry) location_data
                            in (st\<lparr> kf_storage := kf_storage1(vehicle_id telemetry \<mapsto> kf'),
                                    location_tracking := location_tracking st @ [location_record],
                                    influx := influx st @ [influx_data],
                                    redis := redis2 \<rparr>,
                                Inr \<lparr> status = ''success'',
                                      message = ''Telemetry data ingested successfully'',
                                      resp_track_id = track_id location_record,
                                      resp_timestamp = ts \<rparr>))
                       | _ \<Rightarrow>
                           (st\<lparr>kf_storage := kf_storage1(vehicle_id telemetry \<mapsto> kf')\<rparr>,
                            Inl IndexError)))))"

text \<open>
  One entry of the list \<^verbatim>\<open>errors\<close> of the bulk handler: the message
  \<^verbatim>\<open>f"Vehicle {vehicle_id} not found"\<close>, or \<^verbatim>\<open>str(e)\<close> of an exception the loop caught.
\<close>

datatype bulk_error = Not_found_message int | Exception_message string

record BulkResponse =
  bulk_status :: string
  ingested_count :: nat
  total_records :: nat
  errors :: "bulk_error list option"

text \<open>
  The loop of \<^verbatim>\<open>ingest_bulk_telemetry\<close>, with its two accumulators and the position of
  the record in the request. A missing vehicle appends its message and continues. Of the
  calls inside the \<^verbatim>\<open>try\<close>, the InfluxDB write is the one that may raise here:
  \<^verbatim>\<open>write_error i\<close> is \<^verbatim>\<open>None\<close> when the write for the record at position \<^verbatim>\<open>i\<close> succeeds
  and \<^verbatim>\<open>Some text\<close> when it raises an exception \<^verbatim>\<open>e\<close> with \<^verbatim>\<open>str(e) = text\<close>. The
  exception is caught after \<^verbatim>\<open>db.add\<close>: the row is in the session, which the commit after
  the loop stores, but the record is not counted. The database session accepts every
  query and every add.
\<close>

fun ingest_bulk_loop ::
  "(nat \<Rightarrow> string option) \<Rightarrow> nat \<Rightarrow> TelemetryData list \<Rightarrow> datetime \<Rightarrow>
   AppState \<times> nat \<times> bulk_error list \<Rightarrow> AppState \<times> nat \<times> bulk_error list" where
  "ingest_bulk_loop write_error i [] now acc = acc"
| "ingest_bulk_loop write_error i (telemetry # rest) now (st, count, errs) =
     (case find (\<lambda>v. v_vehicle_id v = vehicle_id telemetry) (vehicles st) of
        None \<Rightarrow>
          ingest_bulk_loop write_error (Suc i) rest now
            (st, count, errs @ [Not_found_message (vehicle_id telemetry)])
      | Some vehicle \<Rightarrow>
          (let ts = (case timestamp telemetry of Some t \<Rightarrow> t | None \<Rightarrow> now);
               location_record =
                 \<lparr> track_id = Suc (length (location_tracking st)),
                   lt_vehicle_id = vehicle_id telemetry,
                   position = (longitude telemetry, latitude telemetry),
                   lt_latitude = latitude telemetry,
                   lt_longitude = longitude telemetry,
                   lt_speed = speed telemetry,
                   lt_direction = direction telemetry,
                   lt_accuracy = accuracy telemetry,
                   lt_altitude = altitude telemetry,
                   lt_timestamp = ts \<rparr>;
               st1 = st\<lparr>location_tracking := location_tracking st @ [location_record]\<rparr>;
               influx_data =
                 \<lparr> ip_vehicle_id = vehicle_id telemetry,
                   ip_speed = or_zero (speed telemetry),
                   ip_latitude = latitude telemetry,
                   ip_longitude = longitude telemetry,
                   ip_direction = or_zero (direction telemetry),
                   ip_accuracy = or_zero (accuracy telemetry),
                   ip_altitude = or_zero (altitude telemetry),
                   ip_timestamp = ts,
                   ip_acceleration = None,
                   ip_fuel_level = None \<rparr>
           in case write_error i of
                Some text \<Rightarrow>
                  ingest_bulk_loop write_error (Suc i) rest now
                    (st1, count, errs @ [Exception_message text])
              | None \<Rightarrow>
                  ingest_bulk_loop write_error (Suc i) rest now
                    (st1\<lparr>influx := influx st1 @ [influx_data]\<rparr>, count + 1, errs)))"

definition ingest_bulk_telemetry ::
  "(nat \<Rightarrow> string option) \<Rightarrow> TelemetryData list \<Rightarrow> datetime \<Rightarrow> AppState \<Rightarrow>
   AppState \<times> BulkResponse" where
  "ingest_bulk_telemetry write_error bulk_data now st =
     (case ingest_bulk_loop write_error 0 bulk_data now (st, 0, []) of
        (st', count, errs) \<Rightarrow>
          (st', \<lparr> bulk_status = ''success'',
                 ingested_count = count,
                 total_records = length bulk_data,
                 errors = (if errs \<noteq> [] then Some errs else None) \<rparr>))"

text \<open>
  The two routes as a client reaches them: the body is validated first, and for the bulk
  route every item of \<^verbatim>\<open>data: list[TelemetryData]\<close> must pass before the handler runs.
\<close>

definition post_telemetry ::
  "TelemetryBody \<Rightarrow> datetime \<Rightarrow> AppState \<Rightarrow> AppState \<times> (error + IngestResponse)" where
  "post_telemetry body now st =
     (case TelemetryData_validate body of
        Inl e \<Rightarrow> (st, Inl e)
      | Inr telemetry \<Rightarrow> ingest_telemetry telemetry now st)"

fun validate_items :: "TelemetryBody list \<Rightarrow> error + TelemetryData list" where
  "validate_items [] = Inr []"
| "validate_items (body # rest) =
     (case TelemetryData_validate body of
        Inl e \<Rightarrow> Inl e
      | Inr telemetry \<Rightarrow>
          (case validate_items rest of
             Inl e \<Rightarrow> Inl e
           | Inr items \<Rightarrow> Inr (telemetry # items)))"

definition post_telemetry_bulk ::
  "(nat \<Rightarrow> string option) \<Rightarrow> TelemetryBody list \<Rightarrow> datetime \<Rightarrow> AppState \<Rightarrow>
   AppState \<times> (error + BulkResponse)" where
  "post_telemetry_bulk write_error bodies now st =
     (case validate_items bodies of
        Inl e \<Rightarrow> (st, Inl e)
      | Inr bulk_data \<Rightarrow>
          (case ingest_bulk_telemetry write_error bulk_data now st of
             (st', response) \<Rightarrow> (st', Inr response)))"

section \<open>The WebSocket manager: backend/api\_gateway/main.py\<close>

text \<open>
  A \<^verbatim>\<open>WebSocket\<close> is known by its identity. Whether \<^verbatim>\<open>send_json\<close> on it succeeds is up to
  the peer: \<^verbatim>\<open>send_ok\<close> says which connections accept a message, and the messages that
  were accepted are collected in order.
\<close>

type_synonym WebSocket = nat

record ConnectionManager =
  active_connections :: "WebSocket list"

definition connect :: "ConnectionManager \<Rightarrow> WebSocket \<Rightarrow> ConnectionManager" where
  "connect self websocket =
     self\<lparr>active_connections := active_connections self @ [websocket]\<rparr>"

definition disconnect :: "ConnectionManager \<Rightarrow> WebSocket \<Rightarrow> ConnectionManager" where
  "disconnect self websocket =
     (if websocket \<in> set (active_connections self)
      then self\<lparr>active_connections := remove1 websocket (active_connections self)\<rparr>
      else self)"

text \<open>The loop of \<^verbatim>\<open>broadcast\<close>: \<^verbatim>\<open>except Exception: pass\<close> goes on to the next connection.\<close>

fun broadcast_loop ::
  "(WebSocket \<Rightarrow> bool) \<Rightarrow> 'm \<Rightarrow> WebSocket list \<Rightarrow> (WebSocket \<times> 'm) list \<Rightarrow>
   (WebSocket \<times> 'm) list" where
  "broadcast_loop send_ok msg [] sent = sent"
| "broadcast_loop send_ok msg (connection # rest) sent =
     (if send_ok connection
      then broadcast_loop send_ok msg rest (sent @ [(connection, msg)])
      else broadcast_loop send_ok msg rest sent)"

definition broadcast ::
  "ConnectionManager \<Rightarrow> (WebSocket \<Rightarrow> bool) \<Rightarrow> 'm \<Rightarrow> (WebSocket \<times> 'm) list \<Rightarrow>
   ConnectionManager \<times> (WebSocket \<times> 'm) list" where
  "broadcast self send_ok msg sent =
     (self, broadcast_loop send_ok msg (active_connections self) sent)"

section \<open>Inputs and states the theorems below speak of\<close>

text \<open>The filter \<^verbatim>\<open>ingest_telemetry\<close> calls \<^verbatim>\<open>process\<close> on: the stored one, or a new one.\<close>

definition stored_filter :: "AppState \<Rightarrow> int \<Rightarrow> KalmanFilter" where
  "stored_filter st vid =
     (case kf_storage st vid of None \<Rightarrow> KalmanFilter_default | Some kf \<Rightarrow> kf)"

text \<open>Whether the \<^verbatim>\<open>vehicles\<close> query of the handlers finds a row for a record.\<close>

definition registered :: "Vehicle list \<Rightarrow> TelemetryData \<Rightarrow> bool" where
  "registered vs telemetry \<longleftrightarrow>
     find (\<lambda>v. v_vehicle_id v = vehicle_id telemetry) vs \<noteq> None"

text \<open>
  A body with a required field missing, or with a latitude outside [-90, 90] or a
  longitude outside [-180, 180].
\<close>

definition out_of_contract :: "TelemetryBody \<Rightarrow> bool" where
  "out_of_contract body \<longleftrightarrow>
     body_vehicle_id body = None \<or> body_latitude body = None \<or> body_longitude body = None \<or>
     (\<exists>la. body_latitude body = Some la \<and> (la < - 90 \<or> 90 < la)) \<or>
     (\<exists>lo. body_longitude body = Some lo \<and> (lo < - 180 \<or> 180 < lo))"

text \<open>
  A deployment with vehicle 7 registered and nothing stored yet, and the two samples of the
  example scenario.
\<close>

definition example_state :: AppState where
  "example_state =
     \<lparr> vehicles = [\<lparr>v_vehicle_id = 7, vehicle_number = ''MH-01-7''\<rparr>],
       location_tracking = [],
       kf_storage = Map.empty,
       influx = [],
       redis = \<lparr>cache = Map.empty, published = []\<rparr> \<rparr>"

definition sample :: "int \<Rightarrow> real \<Rightarrow> real \<Rightarrow> TelemetryData" where
  "sample vid la lo =
     \<lparr> vehicle_id = vid, latitude = la, longitude = lo, speed = None, direction = None,
       accuracy = None, altitude = None, acceleration = None, fuel_level = None,
       timestamp = None \<rparr>"

definition sample_body :: "int \<Rightarrow> real \<Rightarrow> real \<Rightarrow> TelemetryBody" where
  "sample_body vid la lo =
     \<lparr> body_vehicle_id = Some vid, body_latitude = Some la, body_longitude = Some lo,
       body_speed = None, body_direction = None, body_accuracy = None, body_altitude = None,
       body_acceleration = None, body_fuel_level = None, body_timestamp = None \<rparr>"

text \<open>The deployment after single-record ingestion of the first sample, then of the second.\<close>

definition after_first :: AppState where
  "after_first = fst (ingest_telemetry (sample 7 (190760 / 10000) (728777 / 10000)) 0 example_state)"

definition after_second :: AppState where
  "after_second = fst (ingest_telemetry (sample 7 (190761 / 10000) (728778 / 10000)) 1 after_first)"

text \<open>Vehicle and position of a record, of a stored row and of a written point.\<close>

definition raw_position :: "TelemetryData \<Rightarrow> int \<times> real \<times> real" where
  "raw_position telemetry = (vehicle_id telemetry, latitude telemetry, longitude telemetry)"

definition row_position :: "LocationTracking \<Rightarrow> int \<times> real \<times> real" where
  "row_position row = (lt_vehicle_id row, lt_latitude row, lt_longitude row)"

definition point_position :: "InfluxPoint \<Rightarrow> int \<times> real \<times> real" where
  "point_position point = (ip_vehicle_id point, ip_latitude point, ip_longitude point)"

text \<open>
  What the bulk loop makes of the record at a position of the request: the entry it
  appends to \<^verbatim>\<open>errors\<close>, if any; the record is counted when there is none.
\<close>

definition item_error ::
  "Vehicle list \<Rightarrow> (nat \<Rightarrow> string option) \<Rightarrow> nat \<times> TelemetryData \<Rightarrow> bulk_error option" where
  "item_error vs write_error item =
     (if \<not> registered vs (snd item) then Some (Not_found_message (vehicle_id (snd item)))
      else map_option Exception_message (write_error (fst item)))"

definition item_ingested ::
  "Vehicle list \<Rightarrow> (nat \<Rightarrow> string option) \<Rightarrow> nat \<times> TelemetryData \<Rightarrow> bool" where
  "item_ingested vs write_error item \<longleftrightarrow> item_error vs write_error item = None"

text \<open>A record whose latitude and longitude are within the declared bounds.\<close>

definition within_range :: "TelemetryData \<Rightarrow> bool" where
  "within_range telemetry \<longleftrightarrow>
     - 90 \<le> latitude telemetry \<and> latitude telemetry \<le> 90 \<and>
     - 180 \<le> longitude telemetry \<and> longitude telemetry \<le> 180"

text \<open>InfluxDB accepting every write, and InfluxDB failing on the third record only.\<close>

definition writes_succeed :: "nat \<Rightarrow> string option" where
  "writes_succeed i = None"

definition third_write_fails :: "nat \<Rightarrow> string option" where
  "third_write_fails i = (if i = 2 then Some ''timeout'' else None)"

text \<open>Three subscribers of which the second refuses every message.\<close>

definition three_connections :: ConnectionManager where
  "three_connections = \<lparr>active_connections = [1, 2, 3]\<rparr>"

definition second_fails :: "WebSocket \<Rightarrow> bool" where
  "second_fails connection \<longleftrightarrow> connection \<noteq> 2"

section \<open>Evaluating the array operations\<close>

lemmas array_defs = dot_mm_def dot_mv_def T_def inner_v_def mat_add_def mat_sub_def
  vec_add_def vec_sub_def mat_scale_def

lemma eye4: "eye 4 = [[1,0,0,0],[0,1,0,0],[0,0,1,0],[0,0,0,1]]"
  by (simp add: eye_def upt_rec numeral_eq_Suc)
lemma eye2: "eye 2 = [[1,0],[0,1]]"
  by (simp add: eye_def upt_rec numeral_eq_Suc)

lemmas kf_eval = predict_def update_def process_def Let_def KalmanFilter_init_def
  KalmanFilter_default_def array_defs eye4 eye2 zeros_def run_calls_def
  innovation_covariance_def

section \<open>The first measurement\<close>

lemma length_dot_mv: "length (dot_mv M v) = length M"
  by (simp add: dot_mv_def)

lemma predict_keeps_flag: "kf_initialized (fst (predict self)) = kf_initialized self"
  by (simp add: predict_def Let_def)

lemma predict_x: "kf_x (fst (predict self)) = dot_mv (kf_A self) (kf_x self)"
  by (simp add: predict_def Let_def)

lemma process_uninitialized:
  assumes "\<not> kf_initialized self" and "length (kf_A self) = 4"
  shows "process self (z_lat, z_lon) =
           ((fst (predict self))\<lparr>kf_x := [z_lat, z_lon, 0, 0], kf_initialized := True\<rparr>,
            Inr [z_lat, z_lon])"
proof -
  let ?p = "fst (predict self)"
  have flag: "\<not> kf_initialized ?p"
    using assms(1) by (simp add: predict_keeps_flag)
  have "length (kf_x ?p) = 4"
    using assms(2) by (simp add: predict_x length_dot_mv)
  then have rest: "replicate (length (kf_x ?p) - 2) (0::real) = [0, 0]"
    by (simp add: numeral_eq_Suc)
  show ?thesis
    unfolding process_def update_def using flag rest by (simp add: Let_def)
qed

text \<open>
  C1. A filter that has absorbed no measurement (\<^verbatim>\<open>initialized\<close> is false) answers its
  first \<^verbatim>\<open>process(measurement)\<close> with exactly the measured position; the state vector
  becomes the position followed by zero velocities, the flag is set, and the covariance
  is the predicted one: no gain is computed and no correction is applied to it.
\<close>

theorem first_process_returns_measurement:
  assumes "\<not> kf_initialized self" and "length (kf_A self) = 4"
  shows "process self (z_lat, z_lon) =
           ((fst (predict self))\<lparr>kf_x := [z_lat, z_lon, 0, 0], kf_initialized := True\<rparr>,
            Inr [z_lat, z_lon])"
  using assms by (rule process_uninitialized)

theorem first_process_returns_measurement_witness:
  "\<not> kf_initialized KalmanFilter_default \<and> length (kf_A KalmanFilter_default) = 4 \<and>
   process KalmanFilter_default (19076 / 1000, 728777 / 10000) =
     ((fst (predict KalmanFilter_default))
        \<lparr>kf_x := [19076 / 1000, 728777 / 10000, 0, 0], kf_initialized := True\<rparr>,
      Inr [19076 / 1000, 728777 / 10000])"
proof -
  have a: "\<not> kf_initialized KalmanFilter_default"
    by (simp add: KalmanFilter_default_def KalmanFilter_init_def)
  have b: "length (kf_A KalmanFilter_default) = 4"
    by (simp add: KalmanFilter_default_def KalmanFilter_init_def)
  show ?thesis
    using a b first_process_returns_measurement [OF a b] by simp
qed

section \<open>A singular innovation covariance\<close>








section \<open>What a successful ingestion caches and publishes\<close>

text \<open>
  C3, as the code has it. After a successful \<^verbatim>\<open>ingest_telemetry\<close>, the entry cached for
  the vehicle (with a time to live of 300) and the two messages published hold the raw
  measured latitude and longitude of the record, with speed and direction passed through
  unchanged. The smoothed position \<^verbatim>\<open>process\<close> returned is written to the new
  \<^verbatim>\<open>location_tracking\<close> row only.
\<close>

theorem cache_and_broadcast_hold_raw_position:
  assumes "snd (ingest_telemetry telemetry now st) = Inr response"
  shows "\<exists>data smoothed_lat smoothed_lon rest row.
     cache (redis (fst (ingest_telemetry telemetry now st)))
       (vehicle_location (vehicle_id telemetry)) = Some (300, data) \<and>
     published (redis (fst (ingest_telemetry telemetry now st))) =
       published (redis st) @
         [(vehicle_updates (vehicle_id telemetry), Location data),
          (vehicle_updates_all, Location_of (vehicle_id telemetry) data)] \<and>
     ld_latitude data = latitude telemetry \<and> ld_longitude data = longitude telemetry \<and>
     ld_speed data = speed telemetry \<and> ld_direction data = direction telemetry \<and>
     snd (process (stored_filter st (vehicle_id telemetry))
            (latitude telemetry, longitude telemetry))
       = Inr (smoothed_lat # smoothed_lon # rest) \<and>
     location_tracking (fst (ingest_telemetry telemetry now st)) = location_tracking st @ [row] \<and>
     lt_latitude row = smoothed_lat \<and> lt_longitude row = smoothed_lon"
  using assms
  by (auto simp add: ingest_telemetry_def stored_filter_def Let_def
      publish_location_update_def set_vehicle_location_def
      split: option.splits sum.splits list.splits prod.splits)

lemma process_default_first:
  "process KalmanFilter_default (z1, z2) =
     (KalmanFilter_default
        \<lparr> kf_P := [[2001 / 1000, 0, 1, 0], [0, 2001 / 1000, 0, 1],
                   [1, 0, 1001 / 1000, 0], [0, 1, 0, 1001 / 1000]],
          kf_x := [z1, z2, 0, 0],
          kf_initialized := True \<rparr>,
      Inr [z1, z2])"
  by (simp add: kf_eval)

lemma process_default_second:
  "process (KalmanFilter_default
        \<lparr> kf_P := [[2001 / 1000, 0, 1, 0], [0, 2001 / 1000, 0, 1],
                   [1, 0, 1001 / 1000, 0], [0, 1, 0, 1001 / 1000]],
          kf_x := [a, b, 0, 0],
          kf_initialized := True \<rparr>) (z1, z2) =
     (KalmanFilter_default
        \<lparr> kf_P := [[5003 / 5004000, 0, 667 / 1668000, 0],
                   [0, 5003 / 5004000, 0, 667 / 1668000],
                   [667 / 1668000, 0, 112223 / 556000, 0],
                   [0, 667 / 1668000, 0, 112223 / 556000]],
          kf_x := [a + 5003 / 5004 * (z1 - a), b + 5003 / 5004 * (z2 - b),
                   667 / 1668 * (z1 - a), 667 / 1668 * (z2 - b)],
          kf_initialized := True \<rparr>,
      Inr [a + 5003 / 5004 * (z1 - a), b + 5003 / 5004 * (z2 - b)])"
  by (simp add: kf_eval)

lemma after_first_eq:
  "after_first =
     \<lparr> vehicles = [\<lparr>v_vehicle_id = 7, vehicle_number = ''MH-01-7''\<rparr>],
       location_tracking =
         [\<lparr> track_id = 1, lt_vehicle_id = 7,
            position = (728777 / 10000, 190760 / 10000),
            lt_latitude = 190760 / 10000, lt_longitude = 728777 / 10000,
            lt_speed = None, lt_direction = None, lt_accuracy = None, lt_altitude = None,
            lt_timestamp = 0 \<rparr>],
       kf_storage = [7 \<mapsto> KalmanFilter_default
          \<lparr> kf_P := [[2001 / 1000, 0, 1, 0], [0, 2001 / 1000, 0, 1],
                     [1, 0, 1001 / 1000, 0], [0, 1, 0, 1001 / 1000]],
            kf_x := [190760 / 10000, 728777 / 10000, 0, 0],
            kf_initialized := True \<rparr>],
       influx =
         [\<lparr> ip_vehicle_id = 7, ip_speed = 0, ip_latitude = 190760 / 10000,
            ip_longitude = 728777 / 10000, ip_direction = 0, ip_accuracy = 0,
            ip_altitude = 0, ip_timestamp = 0, ip_acceleration = None,
            ip_fuel_level = None \<rparr>],
       redis =
         \<lparr> cache = [vehicle_location 7 \<mapsto>
             (300, \<lparr> ld_latitude = 190760 / 10000, ld_longitude = 728777 / 10000,
                      ld_speed = None, ld_direction = None, ld_timestamp = 0,
                      ld_vehicle_number = ''MH-01-7'' \<rparr>)],
           published =
             [(vehicle_updates 7,
               Location \<lparr> ld_latitude = 190760 / 10000, ld_longitude = 728777 / 10000,
                          ld_speed = None, ld_direction = None, ld_timestamp = 0,
                          ld_vehicle_number = ''MH-01-7'' \<rparr>),
              (vehicle_updates_all,
               Location_of 7 \<lparr> ld_latitude = 190760 / 10000, ld_longitude = 728777 / 10000,
                          ld_speed = None, ld_direction = None, ld_timestamp = 0,
                          ld_vehicle_number = ''MH-01-7'' \<rparr>)] \<rparr> \<rparr>"
  by (simp add: after_first_def ingest_telemetry_def example_state_def sample_def
      process_default_first or_zero_def set_vehicle_location_def publish_location_update_def
      Let_def)

lemma first_ingest_response:
  "snd (ingest_telemetry (sample 7 (190760 / 10000) (728777 / 10000)) 0 example_state) =
     Inr \<lparr> status = ''success'', message = ''Telemetry data ingested successfully'',
           resp_track_id = 1, resp_timestamp = 0 \<rparr>"
  by (simp add: ingest_telemetry_def example_state_def sample_def
      process_default_first or_zero_def set_vehicle_location_def publish_location_update_def
      Let_def)

theorem cache_and_broadcast_hold_raw_position_witness:
  "snd (ingest_telemetry (sample 7 (190760 / 10000) (728777 / 10000)) 0 example_state) =
     Inr \<lparr> status = ''success'', message = ''Telemetry data ingested successfully'',
           resp_track_id = 1, resp_timestamp = 0 \<rparr> \<and>
   (\<exists>data smoothed_lat smoothed_lon rest row.
     cache (redis (fst (ingest_telemetry (sample 7 (190760 / 10000) (728777 / 10000)) 0
                     example_state)))
       (vehicle_location (vehicle_id (sample 7 (190760 / 10000) (728777 / 10000))))
       = Some (300, data) \<and>
     published (redis (fst (ingest_telemetry (sample 7 (190760 / 10000) (728777 / 10000)) 0
                     example_state))) =
       published (redis example_state) @
         [(vehicle_updates (vehicle_id (sample 7 (190760 / 10000) (728777 / 10000))),
           Location data),
          (vehicle_updates_all,
           Location_of (vehicle_id (sample 7 (190760 / 10000) (728777 / 10000))) data)] \<and>
     ld_latitude data = latitude (sample 7 (190760 / 10000) (728777 / 10000)) \<and>
     ld_longitude data = longitude (sample 7 (190760 / 10000) (728777 / 10000)) \<and>
     ld_speed data = speed (sample 7 (190760 / 10000) (728777 / 10000)) \<and>
     ld_direction data = direction (sample 7 (190760 / 10000) (728777 / 10000)) \<and>
     snd (process
            (stored_filter example_state
               (vehicle_id (sample 7 (190760 / 10000) (728777 / 10000))))
            (latitude (sample 7 (190760 / 10000) (728777 / 10000)),
             longitude (sample 7 (190760 / 10000) (728777 / 10000))))
       = Inr (smoothed_lat # smoothed_lon # rest) \<and>
     location_tracking (fst (ingest_telemetry (sample 7 (190760 / 10000) (728777 / 10000)) 0
                               example_state))
       = location_tracking example_state @ [row] \<and>
     lt_latitude row = smoothed_lat \<and> lt_longitude row = smoothed_lon)"
  using first_ingest_response
    cache_and_broadcast_hold_raw_position [OF first_ingest_response]
  by (rule conjI)

text \<open>
  The claim as the spec states it fails on the second sample of the example scenario:
  \<^verbatim>\<open>process\<close> returns the smoothed position (about 19.0760998, 72.8777998), which goes
  to the \<^verbatim>\<open>location_tracking\<close> row, while the cache entry and both published messages
  hold the raw position (19.0761, 72.8778).
\<close>

theorem cached_position_is_raw_counterexample:
  "snd (ingest_telemetry (sample 7 (190761 / 10000) (728778 / 10000)) 1 after_first) =
     Inr \<lparr> status = ''success'', message = ''Telemetry data ingested successfully'',
           resp_track_id = 2, resp_timestamp = 1 \<rparr> \<and>
   snd (process (stored_filter after_first 7) (190761 / 10000, 728778 / 10000)) =
     Inr [954568043 / 50040000, 3646805111 / 50040000] \<and>
   map lt_latitude (location_tracking after_second) = [190760 / 10000, 954568043 / 50040000] \<and>
   map lt_longitude (location_tracking after_second) = [728777 / 10000, 3646805111 / 50040000] \<and>
   get_vehicle_location (redis after_second) 7 =
     Some \<lparr> ld_latitude = 190761 / 10000, ld_longitude = 728778 / 10000,
            ld_speed = None, ld_direction = None, ld_timestamp = 1,
            ld_vehicle_number = ''MH-01-7'' \<rparr> \<and>
   drop 2 (published (redis after_second)) =
     [(vehicle_updates 7,
       Location \<lparr> ld_latitude = 190761 / 10000, ld_longitude = 728778 / 10000,
                  ld_speed = None, ld_direction = None, ld_timestamp = 1,
                  ld_vehicle_number = ''MH-01-7'' \<rparr>),
      (vehicle_updates_all,
       Location_of 7 \<lparr> ld_latitude = 190761 / 10000, ld_longitude = 728778 / 10000,
                  ld_speed = None, ld_direction = None, ld_timestamp = 1,
                  ld_vehicle_number = ''MH-01-7'' \<rparr>)] \<and>
   (954568043 / 50040000 :: real) \<noteq> 190761 / 10000 \<and>
   (3646805111 / 50040000 :: real) \<noteq> 728778 / 10000"
  by (simp add: after_second_def after_first_eq ingest_telemetry_def sample_def
      stored_filter_def
      process_default_second or_zero_def set_vehicle_location_def publish_location_update_def
      get_vehicle_location_def Let_def)

section \<open>Validation of a request body\<close>

lemma out_of_contract_invalid:
  assumes "out_of_contract body"
  shows "\<exists>field. TelemetryData_validate body = Inl (RequestValidationError field)"
proof (cases "body_vehicle_id body")
  case None
  then show ?thesis by (simp add: TelemetryData_validate_def)
next
  case vid: (Some vid)
  show ?thesis
  proof (cases "body_latitude body")
    case None
    then show ?thesis using vid by (simp add: TelemetryData_validate_def)
  next
    case la: (Some la)
    show ?thesis
    proof (cases "- 90 \<le> la \<and> la \<le> 90")
      case False
      then show ?thesis using vid la by (simp add: TelemetryData_validate_def)
    next
      case la_ok: True
      show ?thesis
      proof (cases "body_longitude body")
        case None
        then show ?thesis using vid la la_ok by (simp add: TelemetryData_validate_def)
      next
        case lo: (Some lo)
        have "lo < - 180 \<or> 180 < lo"
          using assms vid la la_ok lo by (auto simp add: out_of_contract_def)
        then show ?thesis
          using vid la la_ok lo by (auto simp add: TelemetryData_validate_def)
      qed
    qed
  qed
qed

lemma validate_items_invalid:
  assumes "body \<in> set bodies" and "TelemetryData_validate body = Inl (RequestValidationError f)"
  shows "\<exists>field. validate_items bodies = Inl (RequestValidationError field)"
  using assms
proof (induction bodies)
  case Nil
  then show ?case by simp
next
  case (Cons b bs)
  show ?case
  proof (cases "TelemetryData_validate b")
    case (Inl e)
    have "\<exists>field. e = RequestValidationError field"
      using Inl
      by (auto simp add: TelemetryData_validate_def split: option.splits if_splits)
    then show ?thesis using Inl by auto
  next
    case (Inr t)
    then have "body \<in> set bs" using Cons.prems by auto
    then obtain field where "validate_items bs = Inl (RequestValidationError field)"
      using Cons.IH Cons.prems(2) by blast
    then show ?thesis using Inr by simp
  qed
qed

lemma validate_within_range:
  assumes "TelemetryData_validate body = Inr telemetry"
  shows "within_range telemetry"
  using assms
  by (auto simp add: TelemetryData_validate_def within_range_def
      split: option.splits if_splits)

lemma validate_items_within_range:
  "validate_items bodies = Inr items \<Longrightarrow>
     list_all within_range items \<and> length items = length bodies"
proof (induction bodies arbitrary: items)
  case Nil
  then show ?case by simp
next
  case (Cons b bs)
  from Cons.prems obtain t ts where
    t: "TelemetryData_validate b = Inr t" and ts: "validate_items bs = Inr ts" and
    items: "items = t # ts"
    by (auto split: sum.splits)
  show ?case
    using Cons.IH [OF ts] validate_within_range [OF t] items by simp
qed

section \<open>Bulk ingestion\<close>

lemma ingest_bulk_loop_effect:
  "vehicles (fst (ingest_bulk_loop write_error i items now (st, count, errs))) = vehicles st \<and>
   kf_storage (fst (ingest_bulk_loop write_error i items now (st, count, errs))) = kf_storage st \<and>
   redis (fst (ingest_bulk_loop write_error i items now (st, count, errs))) = redis st \<and>
   fst (snd (ingest_bulk_loop write_error i items now (st, count, errs))) =
     count + length (filter (item_ingested (vehicles st) write_error) (enumerate i items)) \<and>
   snd (snd (ingest_bulk_loop write_error i items now (st, count, errs))) =
     errs @ List.map_filter (item_error (vehicles st) write_error) (enumerate i items) \<and>
   map row_position
       (location_tracking (fst (ingest_bulk_loop write_error i items now (st, count, errs)))) =
     map row_position (location_tracking st) @
     map raw_position (filter (registered (vehicles st)) items) \<and>
   map point_position
       (influx (fst (ingest_bulk_loop write_error i items now (st, count, errs)))) =
     map point_position (influx st) @
     map (\<lambda>item. raw_position (snd item))
       (filter (item_ingested (vehicles st) write_error) (enumerate i items))"
proof (induction items arbitrary: i st count errs)
  case Nil
  show ?case by (simp add: List.map_filter_simps)
next
  case (Cons t items)
  show ?case
  proof (cases "find (\<lambda>v. v_vehicle_id v = vehicle_id t) (vehicles st)")
    case None
    then have nr: "\<not> registered (vehicles st) t" by (simp add: registered_def)
    show ?thesis
      using Cons.IH [of "Suc i" st count "errs @ [Not_found_message (vehicle_id t)]"] None nr
      by (simp add: item_error_def item_ingested_def List.map_filter_simps)
  next
    case (Some vehicle)
    then have r: "registered (vehicles st) t" by (simp add: registered_def)
    let ?ts = "case timestamp t of Some ts \<Rightarrow> ts | None \<Rightarrow> now"
    let ?row = "\<lparr> track_id = Suc (length (location_tracking st)),
                   lt_vehicle_id = vehicle_id t,
                   position = (longitude t, latitude t),
                   lt_latitude = latitude t,
                   lt_longitude = longitude t,
                   lt_speed = speed t,
                   lt_direction = direction t,
                   lt_accuracy = accuracy t,
                   lt_altitude = altitude t,
                   lt_timestamp = ?ts \<rparr>"
    let ?point = "\<lparr> ip_vehicle_id = vehicle_id t,
                   ip_speed = or_zero (speed t),
                   ip_latitude = latitude t,
                   ip_longitude = longitude t,
                   ip_direction = or_zero (direction t),
                   ip_accuracy = or_zero (accuracy t),
                   ip_altitude = or_zero (altitude t),
                   ip_timestamp = ?ts,
                   ip_acceleration = None,
                   ip_fuel_level = None \<rparr>"
    let ?st1 = "st\<lparr>location_tracking := location_tracking st @ [?row]\<rparr>"
    show ?thesis
    proof (cases "write_error i")
      case failed: (Some msg)
      have step: "ingest_bulk_loop write_error i (t # items) now (st, count, errs) =
                    ingest_bulk_loop write_error (Suc i) items now
                      (?st1, count, errs @ [Exception_message msg])"
        using Some failed by (simp add: Let_def)
      show ?thesis
        unfolding step
        using Cons.IH [of "Suc i" ?st1 count "errs @ [Exception_message msg]"] r failed
        by (simp add: item_error_def item_ingested_def List.map_filter_simps
            row_position_def raw_position_def)
    next
      case written: None
      let ?st2 = "?st1\<lparr>influx := influx ?st1 @ [?point]\<rparr>"
      have step: "ingest_bulk_loop write_error i (t # items) now (st, count, errs) =
                    ingest_bulk_loop write_error (Suc i) items now (?st2, count + 1, errs)"
        using Some written by (simp add: Let_def)
      show ?thesis
        unfolding step
        using Cons.IH [of "Suc i" ?st2 "count + 1" errs] r written
        by (simp add: item_error_def item_ingested_def List.map_filter_simps
            row_position_def point_position_def raw_position_def)
    qed
  qed
qed

text \<open>
  C4, as the code has it. A bulk request is validated as a whole: when one of its records
  is out of range or lacks a required field, the request is rejected with the validation
  error and nothing is done for any record. Otherwise every record that reaches the
  handler is within range, and the loop looks up the vehicle of each record in turn. A
  record whose vehicle is not registered adds its \<^verbatim>\<open>Vehicle {id} not found\<close> message and
  the loop goes on. A record whose vehicle is registered is added as a
  \<^verbatim>\<open>location_tracking\<close> row with its raw position; then its InfluxDB point is written and
  the record is counted, or the write raises, the text of the exception is added to the
  messages, the record is not counted, and the loop goes on. No record reaches a Kalman
  filter, the cache or a channel: \<^verbatim>\<open>kf_storage\<close> and Redis are as before.
  \<^verbatim>\<open>ingested_count\<close> is the number of records written without a message and
  \<^verbatim>\<open>total_records\<close> the length of the sequence.
\<close>

theorem bulk_route_rejects_or_stores_raw:
  "(body \<in> set bodies \<and> out_of_contract body \<longrightarrow>
      (\<exists>field. validate_items bodies = Inl (RequestValidationError field))) \<and>
   (validate_items bodies = Inl e \<longrightarrow>
      post_telemetry_bulk write_error bodies now st = (st, Inl e)) \<and>
   (validate_items bodies = Inr items \<longrightarrow>
      list_all within_range items \<and>
      kf_storage (fst (post_telemetry_bulk write_error bodies now st)) = kf_storage st \<and>
      redis (fst (post_telemetry_bulk write_error bodies now st)) = redis st \<and>
      map row_position
          (location_tracking (fst (post_telemetry_bulk write_error bodies now st))) =
        map row_position (location_tracking st) @
        map raw_position (filter (registered (vehicles st)) items) \<and>
      map point_position (influx (fst (post_telemetry_bulk write_error bodies now st))) =
        map point_position (influx st) @
        map (\<lambda>item. raw_position (snd item))
          (filter (item_ingested (vehicles st) write_error) (enumerate 0 items)) \<and>
      snd (post_telemetry_bulk write_error bodies now st) =
        Inr \<lparr> bulk_status = ''success'',
              ingested_count =
                length (filter (item_ingested (vehicles st) write_error) (enumerate 0 items)),
              total_records = length items,
              errors =
                (if List.map_filter (item_error (vehicles st) write_error) (enumerate 0 items)
                    \<noteq> []
                 then Some (List.map_filter (item_error (vehicles st) write_error)
                              (enumerate 0 items))
                 else None) \<rparr>)"
proof (intro conjI impI)
  assume "body \<in> set bodies \<and> out_of_contract body"
  then show "\<exists>field. validate_items bodies = Inl (RequestValidationError field)"
    using out_of_contract_invalid validate_items_invalid by blast
next
  assume "validate_items bodies = Inl e"
  then show "post_telemetry_bulk write_error bodies now st = (st, Inl e)"
    by (simp add: post_telemetry_bulk_def)
next
  assume v: "validate_items bodies = Inr items"
  then show "list_all within_range items"
    using validate_items_within_range by blast
  have p: "post_telemetry_bulk write_error bodies now st =
             (fst (ingest_bulk_telemetry write_error items now st),
              Inr (snd (ingest_bulk_telemetry write_error items now st)))"
    using v by (simp add: post_telemetry_bulk_def case_prod_beta)
  note eff = ingest_bulk_loop_effect [of write_error 0 items now st 0 "[]"]
  show "kf_storage (fst (post_telemetry_bulk write_error bodies now st)) = kf_storage st"
    unfolding p using eff by (simp add: ingest_bulk_telemetry_def case_prod_beta)
  show "redis (fst (post_telemetry_bulk write_error bodies now st)) = redis st"
    unfolding p using eff by (simp add: ingest_bulk_telemetry_def case_prod_beta)
  show "map row_position
          (location_tracking (fst (post_telemetry_bulk write_error bodies now st))) =
        map row_position (location_tracking st) @
        map raw_position (filter (registered (vehicles st)) items)"
    unfolding p using eff by (simp add: ingest_bulk_telemetry_def case_prod_beta)
  show "map point_position (influx (fst (post_telemetry_bulk write_error bodies now st))) =
        map point_position (influx st) @
        map (\<lambda>item. raw_position (snd item))
          (filter (item_ingested (vehicles st) write_error) (enumerate 0 items))"
    unfolding p using eff by (simp add: ingest_bulk_telemetry_def case_prod_beta)
  show "snd (post_telemetry_bulk write_error bodies now st) =
        Inr \<lparr> bulk_status = ''success'',
              ingested_count =
                length (filter (item_ingested (vehicles st) write_error) (enumerate 0 items)),
              total_records = length items,
              errors =
                (if List.map_filter (item_error (vehicles st) write_error) (enumerate 0 items)
                    \<noteq> []
                 then Some (List.map_filter (item_error (vehicles st) write_error)
                              (enumerate 0 items))
                 else None) \<rparr>"
    unfolding p using eff by (simp add: ingest_bulk_telemetry_def case_prod_beta)
qed

lemma rejected_batch:
  "validate_items
     [sample_body 7 (190760 / 10000) (728777 / 10000), sample_body 7 91 (728777 / 10000)] =
     Inl (RequestValidationError ''latitude'')"
  by (simp add: TelemetryData_validate_def sample_body_def optional_ok_def)

lemma accepted_batch:
  "validate_items
     [sample_body 7 (190760 / 10000) (728777 / 10000),
      sample_body 8 (190760 / 10000) (728777 / 10000),
      sample_body 7 (190761 / 10000) (728778 / 10000)] =
     Inr [sample 7 (190760 / 10000) (728777 / 10000),
          sample 8 (190760 / 10000) (728777 / 10000),
          sample 7 (190761 / 10000) (728778 / 10000)]"
  by (simp add: TelemetryData_validate_def sample_body_def sample_def optional_ok_def)

theorem bulk_route_rejects_or_stores_raw_witness:
  "sample_body 7 91 (728777 / 10000)
     \<in> set [sample_body 7 (190760 / 10000) (728777 / 10000),
            sample_body 7 91 (728777 / 10000)] \<and>
   out_of_contract (sample_body 7 91 (728777 / 10000)) \<and>
   validate_items
     [sample_body 7 (190760 / 10000) (728777 / 10000), sample_body 7 91 (728777 / 10000)] =
     Inl (RequestValidationError ''latitude'') \<and>
   post_telemetry_bulk writes_succeed
     [sample_body 7 (190760 / 10000) (728777 / 10000), sample_body 7 91 (728777 / 10000)]
     0 example_state = (example_state, Inl (RequestValidationError ''latitude'')) \<and>
   validate_items
     [sample_body 7 (190760 / 10000) (728777 / 10000),
      sample_body 8 (190760 / 10000) (728777 / 10000),
      sample_body 7 (190761 / 10000) (728778 / 10000)] =
     Inr [sample 7 (190760 / 10000) (728777 / 10000),
          sample 8 (190760 / 10000) (728777 / 10000),
          sample 7 (190761 / 10000) (728778 / 10000)] \<and>
   kf_storage (fst (post_telemetry_bulk third_write_fails
     [sample_body 7 (190760 / 10000) (728777 / 10000),
      sample_body 8 (190760 / 10000) (728777 / 10000),
      sample_body 7 (190761 / 10000) (728778 / 10000)] 0 example_state))
     = kf_storage example_state \<and>
   redis (fst (post_telemetry_bulk third_write_fails
     [sample_body 7 (190760 / 10000) (728777 / 10000),
      sample_body 8 (190760 / 10000) (728777 / 10000),
      sample_body 7 (190761 / 10000) (728778 / 10000)] 0 example_state))
     = redis example_state \<and>
   map row_position (location_tracking (fst (post_telemetry_bulk third_write_fails
     [sample_body 7 (190760 / 10000) (728777 / 10000),
      sample_body 8 (190760 / 10000) (728777 / 10000),
      sample_body 7 (190761 / 10000) (728778 / 10000)] 0 example_state)))
     = [(7, 190760 / 10000, 728777 / 10000), (7, 190761 / 10000, 728778 / 10000)] \<and>
   map point_position (influx (fst (post_telemetry_bulk third_write_fails
     [sample_body 7 (190760 / 10000) (728777 / 10000),
      sample_body 8 (190760 / 10000) (728777 / 10000),
      sample_body 7 (190761 / 10000) (728778 / 10000)] 0 example_state)))
     = [(7, 190760 / 10000, 728777 / 10000)] \<and>
   snd (post_telemetry_bulk third_write_fails
     [sample_body 7 (190760 / 10000) (728777 / 10000),
      sample_body 8 (190760 / 10000) (728777 / 10000),
      sample_body 7 (190761 / 10000) (728778 / 10000)] 0 example_state)
     = Inr \<lparr> bulk_status = ''success'', ingested_count = 1, total_records = 3,
             errors = Some [Not_found_message 8, Exception_message ''timeout''] \<rparr>"
proof -
  have m: "sample_body 7 91 (728777 / 10000)
     \<in> set [sample_body 7 (190760 / 10000) (728777 / 10000),
            sample_body 7 91 (728777 / 10000)] \<and>
     out_of_contract (sample_body 7 91 (728777 / 10000))"
    by (simp add: out_of_contract_def sample_body_def)
  note t1 = bulk_route_rejects_or_stores_raw
    [where body = "sample_body 7 91 (728777 / 10000)"
       and bodies = "[sample_body 7 (190760 / 10000) (728777 / 10000),
                      sample_body 7 91 (728777 / 10000)]"
       and e = "RequestValidationError ''latitude''"
       and write_error = writes_succeed and now = 0 and st = example_state]
  note t2 = bulk_route_rejects_or_stores_raw
    [where body = "sample_body 7 91 (728777 / 10000)"
       and bodies = "[sample_body 7 (190760 / 10000) (728777 / 10000),
                      sample_body 8 (190760 / 10000) (728777 / 10000),
                      sample_body 7 (190761 / 10000) (728778 / 10000)]"
       and items = "[sample 7 (190760 / 10000) (728777 / 10000),
                     sample 8 (190760 / 10000) (728777 / 10000),
                     sample 7 (190761 / 10000) (728778 / 10000)]"
       and write_error = third_write_fails and now = 0 and st = example_state]
  have e: "enumerate 0 [sample 7 (190760 / 10000) (728777 / 10000),
                     sample 8 (190760 / 10000) (728777 / 10000),
                     sample 7 (190761 / 10000) (728778 / 10000)] =
           [(0, sample 7 (190760 / 10000) (728777 / 10000)),
            (1, sample 8 (190760 / 10000) (728777 / 10000)),
            (2, sample 7 (190761 / 10000) (728778 / 10000))]"
    by (simp add: enumerate_simps)
  have r7: "\<And>la lo. registered (vehicles example_state) (sample 7 la lo)"
    by (simp add: registered_def example_state_def sample_def)
  have r8: "\<And>la lo. \<not> registered (vehicles example_state) (sample 8 la lo)"
    by (simp add: registered_def example_state_def sample_def)
  have id: "\<And>v la lo. vehicle_id (sample v la lo) = v"
           "\<And>v la lo. raw_position (sample v la lo) = (v, la, lo)"
    by (simp_all add: sample_def raw_position_def)
  have empty: "location_tracking example_state = []" "influx example_state = []"
    by (simp_all add: example_state_def)
  show ?thesis
    using m rejected_batch accepted_batch t1 t2
    by (simp add: e r7 r8 id empty item_ingested_def item_error_def third_write_fails_def
        List.map_filter_simps
        del: validate_items.simps)
qed

text \<open>
  The claim as the spec states it fails in two ways. The first sample of the example
  scenario, sent alone through bulk ingestion, is counted as ingested, yet no filter
  exists for vehicle 7 afterwards, nothing is cached and nothing is published, while
  single-record ingestion of the same sample does all three. And a request of that sample
  and a record with latitude 91 is rejected whole: the failure of the second record
  aborts the batch, and the first is not ingested.
\<close>

theorem bulk_skips_filter_cache_broadcast_counterexample:
  "ingested_count (snd (ingest_bulk_telemetry writes_succeed
     [sample 7 (190760 / 10000) (728777 / 10000)] 0 example_state)) = 1 \<and>
   kf_storage (fst (ingest_bulk_telemetry writes_succeed
     [sample 7 (190760 / 10000) (728777 / 10000)] 0 example_state)) 7 = None \<and>
   get_vehicle_location (redis (fst (ingest_bulk_telemetry writes_succeed
     [sample 7 (190760 / 10000) (728777 / 10000)] 0 example_state))) 7 = None \<and>
   published (redis (fst (ingest_bulk_telemetry writes_succeed
     [sample 7 (190760 / 10000) (728777 / 10000)] 0 example_state))) = [] \<and>
   kf_storage after_first 7 \<noteq> None \<and>
   get_vehicle_location (redis after_first) 7 \<noteq> None \<and>
   length (published (redis after_first)) = 2 \<and>
   post_telemetry_bulk writes_succeed
     [sample_body 7 (190760 / 10000) (728777 / 10000), sample_body 7 91 (728777 / 10000)]
     0 example_state = (example_state, Inl (RequestValidationError ''latitude''))"
  by (simp add: ingest_bulk_telemetry_def example_state_def sample_def after_first_eq
      get_vehicle_location_def or_zero_def Let_def writes_succeed_def
      post_telemetry_bulk_def TelemetryData_validate_def sample_body_def optional_ok_def)

section \<open>Resetting a filter\<close>

lemma new_filter_process:
  "process (KalmanFilter_init q r) (z_lat, z_lon) =
     ((fst (predict (KalmanFilter_init q r)))
        \<lparr>kf_x := [z_lat, z_lon, 0, 0], kf_initialized := True\<rparr>,
      Inr [z_lat, z_lon])"
  by (rule process_uninitialized) (simp_all add: KalmanFilter_init_def)

lemma correct_position_new:
  assumes "vehicle_filters vid = None"
  shows "correct_position \<lparr>cr_vehicle_id = vid, measurement = m\<rparr> vehicle_filters =
           (vehicle_filters(vid \<mapsto>
              (fst (predict (KalmanFilter_init (1 / 10000) (1 / 100))))
                \<lparr>kf_x := [lat m, lon m, 0, 0], kf_initialized := True\<rparr>),
            Inr m)"
  using assms by (simp add: correct_position_def new_filter_process)

text \<open>
  C5, as the code has it. Resetting a vehicle that has a filter deletes the filter and
  answers with status \<^verbatim>\<open>reset\<close>; the next \<^verbatim>\<open>correct_position\<close> for the vehicle builds a new,
  uninitialized filter, so it answers with the measurement itself. Resetting a vehicle
  that has no filter raises HTTP 404 \<^verbatim>\<open>Vehicle filter not found\<close> and leaves the dict as it
  is; so does the second of two resets in a row.
\<close>

theorem reset_filter_deletes_or_404:
  "(vehicle_filters vid = None \<longrightarrow>
      reset_filter vid vehicle_filters =
        (vehicle_filters, Inl (HTTPException 404 Vehicle_filter_not_found))) \<and>
   (vehicle_filters vid \<noteq> None \<longrightarrow>
      reset_filter vid vehicle_filters =
        (vehicle_filters(vid := None), Inr \<lparr>reset_status = ''reset'', reset_vehicle_id = vid\<rparr>) \<and>
      reset_filter vid (fst (reset_filter vid vehicle_filters)) =
        (vehicle_filters(vid := None), Inl (HTTPException 404 Vehicle_filter_not_found)) \<and>
      correct_position \<lparr>cr_vehicle_id = vid, measurement = m\<rparr>
          (fst (reset_filter vid vehicle_filters)) =
        (vehicle_filters(vid \<mapsto>
           (fst (predict (KalmanFilter_init (1 / 10000) (1 / 100))))
             \<lparr>kf_x := [lat m, lon m, 0, 0], kf_initialized := True\<rparr>),
         Inr m))"
proof (intro conjI impI)
  assume "vehicle_filters vid = None"
  then show "reset_filter vid vehicle_filters =
      (vehicle_filters, Inl (HTTPException 404 Vehicle_filter_not_found))"
    by (simp add: reset_filter_def)
next
  assume some: "vehicle_filters vid \<noteq> None"
  then show r: "reset_filter vid vehicle_filters =
      (vehicle_filters(vid := None), Inr \<lparr>reset_status = ''reset'', reset_vehicle_id = vid\<rparr>)"
    by (auto simp add: reset_filter_def)
  show "reset_filter vid (fst (reset_filter vid vehicle_filters)) =
      (vehicle_filters(vid := None), Inl (HTTPException 404 Vehicle_filter_not_found))"
    unfolding r by (simp add: reset_filter_def)
  have "correct_position \<lparr>cr_vehicle_id = vid, measurement = m\<rparr> (vehicle_filters(vid := None)) =
      ((vehicle_filters(vid := None))(vid \<mapsto>
           (fst (predict (KalmanFilter_init (1 / 10000) (1 / 100))))
             \<lparr>kf_x := [lat m, lon m, 0, 0], kf_initialized := True\<rparr>),
         Inr m)"
    by (rule correct_position_new) simp
  then show "correct_position \<lparr>cr_vehicle_id = vid, measurement = m\<rparr>
          (fst (reset_filter vid vehicle_filters)) =
        (vehicle_filters(vid \<mapsto>
           (fst (predict (KalmanFilter_init (1 / 10000) (1 / 100))))
             \<lparr>kf_x := [lat m, lon m, 0, 0], kf_initialized := True\<rparr>),
         Inr m)"
    unfolding r by simp
qed

theorem reset_filter_deletes_or_404_witness:
  "(Map.empty :: string \<rightharpoonup> KalmanFilter) ''7'' = None \<and>
   reset_filter ''7'' Map.empty = (Map.empty, Inl (HTTPException 404 Vehicle_filter_not_found)) \<and>
   [''7'' \<mapsto> KalmanFilter_default] ''7'' \<noteq> None \<and>
   reset_filter ''7'' [''7'' \<mapsto> KalmanFilter_default] =
     ([''7'' \<mapsto> KalmanFilter_default](''7'' := None),
      Inr \<lparr>reset_status = ''reset'', reset_vehicle_id = ''7''\<rparr>) \<and>
   reset_filter ''7'' (fst (reset_filter ''7'' [''7'' \<mapsto> KalmanFilter_default])) =
     ([''7'' \<mapsto> KalmanFilter_default](''7'' := None),
      Inl (HTTPException 404 Vehicle_filter_not_found)) \<and>
   correct_position \<lparr>cr_vehicle_id = ''7'', measurement = \<lparr>lat = 1, lon = 2\<rparr>\<rparr>
       (fst (reset_filter ''7'' [''7'' \<mapsto> KalmanFilter_default])) =
     ([''7'' \<mapsto> KalmanFilter_default](''7'' \<mapsto>
        (fst (predict (KalmanFilter_init (1 / 10000) (1 / 100))))
          \<lparr>kf_x := [lat \<lparr>lat = 1, lon = 2\<rparr>, lon \<lparr>lat = 1, lon = 2\<rparr>, 0, 0],
            kf_initialized := True\<rparr>),
      Inr \<lparr>lat = 1, lon = 2\<rparr>)"
proof -
  have a: "(Map.empty :: string \<rightharpoonup> KalmanFilter) ''7'' = None" by simp
  have b: "[''7'' \<mapsto> KalmanFilter_default] ''7'' \<noteq> None" by simp
  show ?thesis
    using a b
      reset_filter_deletes_or_404 [of Map.empty "''7''"]
      reset_filter_deletes_or_404 [of "[''7'' \<mapsto> KalmanFilter_default]" "''7''"
        "\<lparr>lat = 1, lon = 2\<rparr>"]
    by blast
qed

text \<open>
  The claim as the spec states it fails: a reset of a vehicle without a filter is an
  error, and a reset repeated is an error the second time.
\<close>

theorem reset_unknown_counterexample:
  "snd (reset_filter ''7'' Map.empty) = Inl (HTTPException 404 Vehicle_filter_not_found) \<and>
   snd (reset_filter ''7'' [''7'' \<mapsto> KalmanFilter_default]) =
     Inr \<lparr>reset_status = ''reset'', reset_vehicle_id = ''7''\<rparr> \<and>
   snd (reset_filter ''7'' (fst (reset_filter ''7'' [''7'' \<mapsto> KalmanFilter_default]))) =
     Inl (HTTPException 404 Vehicle_filter_not_found)"
  by (simp add: reset_filter_def)

section \<open>Out-of-range records on the three routes\<close>

text \<open>
  C6, as the code has it. On the telemetry routes, a body with a latitude outside
  [-90, 90], a longitude outside [-180, 180] or a required field missing is rejected with
  a validation error before the handler runs: the state after the request is the state
  before it, so no filter was created or changed and nothing was cached or published; a
  bulk request that holds such a body is rejected in the same way. The \<^verbatim>\<open>/correct\<close> route
  declares no bounds: for a vehicle without a filter it builds one from the measurement
  and answers with the measurement, whatever its coordinates are.
\<close>

theorem invalid_record_rejected_on_telemetry_routes:
  "(out_of_contract body \<longrightarrow>
      (\<exists>field. post_telemetry body now st = (st, Inl (RequestValidationError field))) \<and>
      (body \<in> set bodies \<longrightarrow>
         (\<exists>field. post_telemetry_bulk write_error bodies now st =
            (st, Inl (RequestValidationError field))))) \<and>
   (vehicle_filters vid = None \<longrightarrow>
      correct_position \<lparr>cr_vehicle_id = vid, measurement = m\<rparr> vehicle_filters =
        (vehicle_filters(vid \<mapsto>
           (fst (predict (KalmanFilter_init (1 / 10000) (1 / 100))))
             \<lparr>kf_x := [lat m, lon m, 0, 0], kf_initialized := True\<rparr>),
         Inr m))"
proof (intro conjI impI)
  assume out: "out_of_contract body"
  then obtain f where f: "TelemetryData_validate body = Inl (RequestValidationError f)"
    using out_of_contract_invalid by blast
  then have "post_telemetry body now st = (st, Inl (RequestValidationError f))"
    by (simp add: post_telemetry_def)
  then show "\<exists>field. post_telemetry body now st = (st, Inl (RequestValidationError field))"
    by blast
  assume mem: "body \<in> set bodies"
  obtain g where "validate_items bodies = Inl (RequestValidationError g)"
    using mem f validate_items_invalid by blast
  then show "\<exists>field. post_telemetry_bulk write_error bodies now st =
      (st, Inl (RequestValidationError field))"
    by (simp add: post_telemetry_bulk_def)
next
  assume "vehicle_filters vid = None"
  then show "correct_position \<lparr>cr_vehicle_id = vid, measurement = m\<rparr> vehicle_filters =
        (vehicle_filters(vid \<mapsto>
           (fst (predict (KalmanFilter_init (1 / 10000) (1 / 100))))
             \<lparr>kf_x := [lat m, lon m, 0, 0], kf_initialized := True\<rparr>),
         Inr m)"
    by (rule correct_position_new)
qed

theorem invalid_record_rejected_on_telemetry_routes_witness:
  "out_of_contract (sample_body 7 91 (728777 / 10000)) \<and>
   (\<exists>field. post_telemetry (sample_body 7 91 (728777 / 10000)) 0 example_state =
      (example_state, Inl (RequestValidationError field))) \<and>
   sample_body 7 91 (728777 / 10000)
     \<in> set [sample_body 7 (190760 / 10000) (728777 / 10000), sample_body 7 91 (728777 / 10000)] \<and>
   (\<exists>field. post_telemetry_bulk writes_succeed
      [sample_body 7 (190760 / 10000) (728777 / 10000), sample_body 7 91 (728777 / 10000)]
      0 example_state = (example_state, Inl (RequestValidationError field))) \<and>
   (Map.empty :: string \<rightharpoonup> KalmanFilter) ''7'' = None \<and>
   correct_position \<lparr>cr_vehicle_id = ''7'', measurement = \<lparr>lat = 91, lon = - 500\<rparr>\<rparr> Map.empty =
     ([''7'' \<mapsto>
        (fst (predict (KalmanFilter_init (1 / 10000) (1 / 100))))
          \<lparr>kf_x := [lat \<lparr>lat = 91, lon = - 500\<rparr>, lon \<lparr>lat = 91, lon = - 500\<rparr>, 0, 0],
            kf_initialized := True\<rparr>],
      Inr \<lparr>lat = 91, lon = - 500\<rparr>)"
proof -
  have a: "out_of_contract (sample_body 7 91 (728777 / 10000))"
    by (simp add: out_of_contract_def sample_body_def)
  have b: "sample_body 7 91 (728777 / 10000)
     \<in> set [sample_body 7 (190760 / 10000) (728777 / 10000), sample_body 7 91 (728777 / 10000)]"
    by simp
  have c: "(Map.empty :: string \<rightharpoonup> KalmanFilter) ''7'' = None" by simp
  show ?thesis
    using a b c invalid_record_rejected_on_telemetry_routes
      [where body = "sample_body 7 91 (728777 / 10000)" and now = 0 and st = example_state
         and bodies = "[sample_body 7 (190760 / 10000) (728777 / 10000),
                        sample_body 7 91 (728777 / 10000)]"
         and write_error = writes_succeed
         and vehicle_filters = Map.empty and vid = "''7''"
         and m = "\<lparr>lat = 91, lon = - 500\<rparr>"]
    by blast
qed

text \<open>
  The claim as the spec states it fails on the \<^verbatim>\<open>/correct\<close> route: a measurement with
  latitude 91 and longitude -500 for a vehicle not seen before is not rejected; it is
  answered with the measurement itself, and a filter initialized with it is stored.
\<close>

theorem out_of_range_correction_counterexample:
  "\<not> (- 90 \<le> (91::real) \<and> (91::real) \<le> 90) \<and>
   \<not> (- 180 \<le> (- 500::real) \<and> (- 500::real) \<le> 180) \<and>
   snd (correct_position \<lparr>cr_vehicle_id = ''7'', measurement = \<lparr>lat = 91, lon = - 500\<rparr>\<rparr>
          Map.empty) = Inr \<lparr>lat = 91, lon = - 500\<rparr> \<and>
   fst (correct_position \<lparr>cr_vehicle_id = ''7'', measurement = \<lparr>lat = 91, lon = - 500\<rparr>\<rparr>
          Map.empty) ''7'' =
     Some ((fst (predict (KalmanFilter_init (1 / 10000) (1 / 100))))
             \<lparr>kf_x := [91, - 500, 0, 0], kf_initialized := True\<rparr>)"
  by (simp add: correct_position_new)

section \<open>The example scenario\<close>

text \<open>
  C8. On an empty \<^verbatim>\<open>vehicle_filters\<close>, the sample (19.0760, 72.8777) for vehicle 7 is
  answered with (19.0760, 72.8777) exactly; a second sample (19.0761, 72.8778) for the same
  vehicle is answered with a position strictly between the two samples in each
  coordinate, so equal to neither.
\<close>

theorem example_scenario:
  "snd (correct_position
          \<lparr>cr_vehicle_id = ''7'', measurement = \<lparr>lat = 190760 / 10000, lon = 728777 / 10000\<rparr>\<rparr>
          Map.empty)
     = Inr \<lparr>lat = 190760 / 10000, lon = 728777 / 10000\<rparr> \<and>
   (\<exists>p. snd (correct_position
          \<lparr>cr_vehicle_id = ''7'', measurement = \<lparr>lat = 190761 / 10000, lon = 728778 / 10000\<rparr>\<rparr>
          (fst (correct_position
             \<lparr>cr_vehicle_id = ''7'', measurement = \<lparr>lat = 190760 / 10000, lon = 728777 / 10000\<rparr>\<rparr>
             Map.empty)))
         = Inr p \<and>
       p = \<lparr>lat = 9557698283 / 501030000, lon = 18256982017 / 250515000\<rparr> \<and>
       190760 / 10000 < lat p \<and> lat p < 190761 / 10000 \<and>
       728777 / 10000 < lon p \<and> lon p < 728778 / 10000)"
  by (simp add: correct_position_def kf_eval)

section \<open>Broadcasting to the subscribers\<close>

lemma broadcast_loop_eq:
  "broadcast_loop send_ok msg connections sent =
     sent @ map (\<lambda>c. (c, msg)) (filter send_ok connections)"
  by (induction connections arbitrary: sent) simp_all

text \<open>
  C9, as the code has it. A broadcast sends the message to every active connection in
  order; a connection whose \<^verbatim>\<open>send_json\<close> raises is passed over silently, and every
  connection that accepts the message receives it, those after a failing one too. The
  manager is returned as it was: a failing connection stays in \<^verbatim>\<open>active_connections\<close>,
  and nothing records the failure.
\<close>

theorem broadcast_passes_over_failures:
  "broadcast self send_ok msg sent =
     (self, sent @ map (\<lambda>c. (c, msg)) (filter send_ok (active_connections self)))"
  by (simp add: broadcast_def broadcast_loop_eq)

text \<open>
  The claim as the spec states it fails: the second of three subscribers refuses the
  message, the other two receive it, and after the broadcast the manager still lists all
  three.
\<close>

theorem failed_subscriber_stays_counterexample:
  "\<not> second_fails 2 \<and>
   snd (broadcast three_connections second_fails ''update'' []) =
     [(1, ''update''), (3, ''update'')] \<and>
   fst (broadcast three_connections second_fails ''update'' []) = three_connections \<and>
   active_connections (fst (broadcast three_connections second_fails ''update'' [])) = [1, 2, 3]"
  by (simp add: broadcast_def three_connections_def second_fails_def)

section \<open>A vehicle that is not registered\<close>

lemma find_vehicle_None:
  "vid \<notin> v_vehicle_id ` set vs \<Longrightarrow> find (\<lambda>v. v_vehicle_id v = vid) vs = None"
  by (auto simp add: find_None_iff)

text \<open>
  C10. When no row of \<^verbatim>\<open>vehicles\<close> has the record's \<^verbatim>\<open>vehicle_id\<close>, \<^verbatim>\<open>ingest_telemetry\<close>
  raises HTTP 404 \<^verbatim>\<open>Vehicle {id} not found\<close> and nothing has changed: no filter was created
  or updated in \<^verbatim>\<open>kf_storage\<close>, no row or point was written, nothing was cached or
  published.
\<close>

theorem unregistered_vehicle_rejected:
  assumes "vehicle_id telemetry \<notin> v_vehicle_id ` set (vehicles st)"
  shows "ingest_telemetry telemetry now st =
           (st, Inl (HTTPException 404 (Vehicle_not_found (vehicle_id telemetry))))"
  using assms by (simp add: ingest_telemetry_def find_vehicle_None)

theorem unregistered_vehicle_rejected_witness:
  "vehicle_id (sample 8 (190760 / 10000) (728777 / 10000))
     \<notin> v_vehicle_id ` set (vehicles example_state) \<and>
   ingest_telemetry (sample 8 (190760 / 10000) (728777 / 10000)) 0 example_state =
     (example_state,
      Inl (HTTPException 404
        (Vehicle_not_found (vehicle_id (sample 8 (190760 / 10000) (728777 / 10000))))))"
proof -
  have a: "vehicle_id (sample 8 (190760 / 10000) (728777 / 10000))
             \<notin> v_vehicle_id ` set (vehicles example_state)"
    by (simp add: sample_def example_state_def)
  show ?thesis
    using a unregistered_vehicle_rejected [OF a, of 0] by simp
qed

end
